theory Spec2Isabelle
  imports Complex_Main "HOL-Library.Sublist" "HOL-Library.AList"
begin

section \<open>JavaScript strings and arrays\<close>


definition isUpper :: "char \<Rightarrow> bool" where
  "isUpper c = (65 \<le> (of_char c :: nat) \<and> (of_char c :: nat) \<le> 90)"

definition isDigit :: "char \<Rightarrow> bool" where
  "isDigit c = (48 \<le> (of_char c :: nat) \<and> (of_char c :: nat) \<le> 57)"

definition toLowerChar :: "char \<Rightarrow> char" where
  "toLowerChar c = (if isUpper c then char_of (of_char c + (32::nat)) else c)"

definition toLowerCase :: "string \<Rightarrow> string" where
  "toLowerCase s = map toLowerChar s"

text \<open>\<open>s.split(d)\<close> for a one-character separator: never the empty array.\<close>

fun split :: "char \<Rightarrow> string \<Rightarrow> string list" where
  "split d [] = [[]]"
| "split d (c # cs) =
     (if c = d then [] # split d cs
      else (case split d cs of p # ps \<Rightarrow> (c # p) # ps | [] \<Rightarrow> [[c]]))"

text \<open>\<open>parts.join(sep)\<close>.\<close>

fun join :: "string \<Rightarrow> string list \<Rightarrow> string" where
  "join sep [] = []"
| "join sep [p] = p"
| "join sep (p # q # ps) = p @ sep @ join sep (q # ps)"

text \<open>\<open>xs.indexOf(x)\<close>; \<open>None\<close> is the source's \<open>-1\<close>.\<close>

fun indexOf :: "'a list \<Rightarrow> 'a \<Rightarrow> nat option" where
  "indexOf [] x = None"
| "indexOf (y # ys) x = (if y = x then Some 0 else map_option Suc (indexOf ys x))"

text \<open>\<open>s.startsWith(p)\<close>.\<close>

definition startsWith :: "string \<Rightarrow> string \<Rightarrow> bool" where
  "startsWith s p = (take (length p) s = p)"

section \<open>Configuration\<close>

text \<open>
  The fields of \<open>tokens.config.js\<close> that the modelled functions read.
  \<open>reorderSemanticTokens\<close> is the truth value of
  \<open>config.transformations?.reorderSemanticTokens\<close>, and \<open>categoryKeywords\<close> is
  \<open>config.transformations.categoryKeywords || []\<close>.
\<close>

record config =
  cssPrefixPrimitive :: string
  cssPrefixSemantic :: string
  reorderSemanticTokens :: bool
  categoryKeywords :: "string list"

text \<open>The configuration documented in the README.\<close>

definition readmeConfig :: config where
  "readmeConfig =
     \<lparr> cssPrefixPrimitive = ''primitive'', cssPrefixSemantic = [],
       reorderSemanticTokens = True,
       categoryKeywords = [''text'', ''background'', ''border'', ''surface'', ''icon''] \<rparr>"

section \<open>Name normalizer (transform-figma-tokens)\<close>

subsection \<open>cleanTokenName\<close>












subsection \<open>reorderSemanticToken\<close>

text \<open>
  The loop over the configured keywords: the first keyword whose \<open>indexOf\<close> in the parts
  is positive is spliced out and put in front; a keyword at index 0 or absent is skipped.
\<close>

fun reorderLoop :: "string list \<Rightarrow> string list \<Rightarrow> string \<Rightarrow> string" where
  "reorderLoop [] parts tokenName = tokenName"
| "reorderLoop (keyword # keywords) parts tokenName =
     (case indexOf parts keyword of
        Some (Suc i) \<Rightarrow>
          join ''-'' ((parts ! Suc i) # (take (Suc i) parts @ drop (Suc (Suc i)) parts))
      | _ \<Rightarrow> reorderLoop keywords parts tokenName)"

definition reorderSemanticToken :: "config \<Rightarrow> string \<Rightarrow> string" where
  "reorderSemanticToken cfg tokenName =
     (if \<not> reorderSemanticTokens cfg then tokenName
      else reorderLoop (categoryKeywords cfg) (split CHR ''-'' tokenName) tokenName)"

section \<open>Universal token parser: tokens and reference resolution\<close>

text \<open>
  \<open>StandardToken\<close>. \<open>value\<close> and \<open>rawValue\<close> hold whatever the document carries (the type
  \<open>'v\<close>); \<open>references\<close> is \<open>null\<close> (\<open>None\<close>) or the normalized name of the referenced
  token; \<open>metadata\<close> is kept abstract except for the \<open>isLegacy\<close> flag.
\<close>

record ('v, 'm) token =
  name :: string
  val :: 'v
  type :: string
  rawValue :: 'v
  references :: "string option"
  metadata :: 'm
  isLegacy :: bool
  category :: "string option"
  group :: "string option"

text \<open>
  JavaScript truthiness of \<open>token.references\<close>: \<open>null\<close> and the empty string are falsy.
\<close>

definition truthy :: "string option \<Rightarrow> bool" where
  "truthy r = (case r of None \<Rightarrow> False | Some s \<Rightarrow> s \<noteq> [])"

text \<open>
  \<open>new Map(tokens.map(t => [t.name, t]))\<close>: a later token of the same name replaces an
  earlier one. The map holds the token objects themselves, which the resolver mutates, so
  the model maps a name to the position of its token in the array.
\<close>

definition tokenMap :: "('v, 'm) token list \<Rightarrow> (string \<rightharpoonup> nat)" where
  "tokenMap tokens = map_of (rev (map (\<lambda>j. (name (tokens ! j), j)) [0..<length tokens]))"

text \<open>How the \<open>while\<close> loop of \<open>resolveReferences\<close> is left.\<close>

datatype 'v chain_exit =
    Missing string  \<comment> \<open>\<open>tokenMap.get(currentRef)\<close> is undefined: warn and break\<close>
  | Literal 'v      \<comment> \<open>the target has no reference: its value is assigned, break\<close>
  | LoopEnd         \<comment> \<open>the loop condition failed\<close>

datatype warning = UnresolvedReference string string | CircularReference string

definition maxDepth :: nat where
  "maxDepth = 10"

text \<open>
  The \<open>while (currentRef && depth < maxDepth)\<close> loop; the result is the way the loop is
  left together with the final \<open>depth\<close>.
\<close>

function followChain ::
  "('v, 'm) token list \<Rightarrow> nat \<Rightarrow> string \<Rightarrow> nat \<Rightarrow> 'v chain_exit \<times> nat" where
  "followChain tokens maxD currentRef depth =
     (if currentRef \<noteq> [] \<and> depth < maxD then
        (case tokenMap tokens currentRef of
           None \<Rightarrow> (Missing currentRef, depth)
         | Some j \<Rightarrow>
             (case references (tokens ! j) of
                None \<Rightarrow> (Literal (val (tokens ! j)), depth)
              | Some r \<Rightarrow>
                  if r = [] then (Literal (val (tokens ! j)), depth)
                  else followChain tokens maxD r (depth + 1)))
      else (LoopEnd, depth))"
  by pat_completeness auto
termination
  by (relation "measure (\<lambda>(tokens, maxD, currentRef, depth). maxD - depth)") auto

declare followChain.simps [simp del]

text \<open>The body of the \<open>for\<close> loop for the token at position \<open>i\<close>.\<close>

definition resolveToken ::
  "nat \<Rightarrow> ('v, 'm) token list \<Rightarrow> nat \<Rightarrow> ('v, 'm) token list \<times> warning list" where
  "resolveToken maxD tokens i =
     (let token = tokens ! i in
      case references token of
        None \<Rightarrow> (tokens, [])
      | Some r \<Rightarrow>
          if r = [] then (tokens, [])
          else
            (case followChain tokens maxD r 0 of
               (ex, depth) \<Rightarrow>
                 (case ex of
                    Literal v \<Rightarrow> tokens[i := token\<lparr>val := v\<rparr>]
                  | _ \<Rightarrow> tokens,
                  (case ex of
                     Missing cur \<Rightarrow> [UnresolvedReference cur (name token)]
                   | _ \<Rightarrow> [])
                  @ (if maxD \<le> depth then [CircularReference (name token)] else []))))"

fun resolveLoop ::
  "nat \<Rightarrow> nat list \<Rightarrow> ('v, 'm) token list \<times> warning list
     \<Rightarrow> ('v, 'm) token list \<times> warning list" where
  "resolveLoop maxD [] st = st"
| "resolveLoop maxD (i # is) (tokens, warnings) =
     (case resolveToken maxD tokens i of
        (tokens', ws) \<Rightarrow> resolveLoop maxD is (tokens', warnings @ ws))"

text \<open>\<open>W3CParser.resolveReferences\<close>: the mutated array and the warnings printed.\<close>

definition resolveReferences ::
  "('v, 'm) token list \<Rightarrow> ('v, 'm) token list \<times> warning list" where
  "resolveReferences tokens = resolveLoop maxDepth [0..<length tokens] (tokens, [])"

text \<open>
  One hop of a reference chain, read off the token set alone: the reference held by the
  token that a name denotes, if that token exists and holds a reference.
\<close>

definition nextRef :: "('v, 'm) token list \<Rightarrow> string \<Rightarrow> string option" where
  "nextRef tokens r =
     (case tokenMap tokens r of
        None \<Rightarrow> None
      | Some j \<Rightarrow> if truthy (references (tokens ! j)) then references (tokens ! j) else None)"

text \<open>\<open>hops tokens n r\<close>: the name reached after \<open>n\<close> hops from \<open>r\<close>, if the chain is that long.\<close>

fun hops :: "('v, 'm) token list \<Rightarrow> nat \<Rightarrow> string \<Rightarrow> string option" where
  "hops tokens 0 r = Some r"
| "hops tokens (Suc n) r =
     (case nextRef tokens r of None \<Rightarrow> None | Some r' \<Rightarrow> hops tokens n r')"

subsection \<open>What one loop iteration does to its token, read off a fixed token set\<close>

text \<open>
  \<open>resolvedToken maxD tokens t\<close> is the token \<open>t\<close> after its own iteration when the chain
  is followed in \<open>tokens\<close>, and \<open>tokenWarnings\<close> are the warnings of that iteration. They
  are used to describe the result of the whole loop.
\<close>

definition resolvedToken ::
  "nat \<Rightarrow> ('v, 'm) token list \<Rightarrow> ('v, 'm) token \<Rightarrow> ('v, 'm) token" where
  "resolvedToken maxD tokens t =
     (case references t of
        None \<Rightarrow> t
      | Some r \<Rightarrow>
          if r = [] then t
          else (case fst (followChain tokens maxD r 0) of
                  Literal v \<Rightarrow> t\<lparr>val := v\<rparr>
                | _ \<Rightarrow> t))"

definition tokenWarnings ::
  "nat \<Rightarrow> ('v, 'm) token list \<Rightarrow> ('v, 'm) token \<Rightarrow> warning list" where
  "tokenWarnings maxD tokens t =
     (case references t of
        None \<Rightarrow> []
      | Some r \<Rightarrow>
          if r = [] then []
          else (case fst (followChain tokens maxD r 0) of
                  Missing cur \<Rightarrow> [UnresolvedReference cur (name t)]
                | _ \<Rightarrow> [])
               @ (if maxD \<le> snd (followChain tokens maxD r 0)
                  then [CircularReference (name t)] else []))"

text \<open>
  Two token arrays agree on everything the resolver reads: names, references, and the
  values of the tokens that hold no reference.
\<close>

definition agree :: "('v, 'm) token list \<Rightarrow> ('v, 'm) token list \<Rightarrow> bool" where
  "agree ts ts' =
     (length ts' = length ts \<and>
      (\<forall>j < length ts.
         name (ts' ! j) = name (ts ! j) \<and> references (ts' ! j) = references (ts ! j) \<and>
         (\<not> truthy (references (ts ! j)) \<longrightarrow> val (ts' ! j) = val (ts ! j))))"

section \<open>Classifiers\<close>

text \<open>\<open>s.includes(p)\<close>\<close>

fun str_includes :: "string \<Rightarrow> string \<Rightarrow> bool" where
  "str_includes [] p = (p = [])"
| "str_includes (c # cs) p = (startsWith (c # cs) p \<or> str_includes cs p)"

subsection \<open>The universal parser's classifyTokens\<close>

definition isPrimitivePattern :: "string \<Rightarrow> bool" where
  "isPrimitivePattern nm =
     list_ex (\<lambda>pre. str_includes (toLowerCase nm) pre)
       [''base-'', ''primitive-'', ''scale-'', ''color-'', ''grey-'', ''gray-'',
        ''red-'', ''blue-'', ''green-'', ''yellow-'', ''orange-'', ''purple-'', ''pink-'',
        ''spacing-'', ''radius-'', ''font-size-'']"

definition isSemanticPattern :: "string \<Rightarrow> bool" where
  "isSemanticPattern nm =
     list_ex (\<lambda>pre. str_includes (toLowerCase nm) pre)
       [''semantic-'', ''system-'', ''component-'',
        ''primary-'', ''secondary-'', ''accent-'', ''surface-'', ''background-'',
        ''text-'', ''content-'', ''border-'', ''stroke-'']"

fun classifyTokens ::
  "('v, 'm) token list \<Rightarrow> ('v, 'm) token list \<times> ('v, 'm) token list" where
  "classifyTokens [] = ([], [])"
| "classifyTokens (token # tokens) =
     (case classifyTokens tokens of
        (primitives, semantics) \<Rightarrow>
          if truthy (references token) then (primitives, token # semantics)
          else if isPrimitivePattern (name token) then (token # primitives, semantics)
          else if isSemanticPattern (name token) then (primitives, token # semantics)
          else (token # primitives, semantics))"

subsection \<open>The legacy W3C parser's classifyTokens\<close>

text \<open>A flat token of the legacy parser; \<open>references\<close> is absent until a reference resolved.\<close>

record 'v w3cToken =
  w3cType :: string
  w3cValue :: 'v
  w3cPath :: "string list"
  w3cDescription :: string
  w3cReferences :: "string option"

text \<open>
  \<open>tokens\<close> is the object keyed by dotted token name, as its \<open>Object.entries\<close>;
  \<open>tokens[token.references]?.type\<close> is a lookup by key.
\<close>

definition isDimensionReferencingDimension ::
  "(string \<times> 'v w3cToken) list \<Rightarrow> 'v w3cToken \<Rightarrow> bool" where
  "isDimensionReferencingDimension tokens token =
     (w3cType token = ''dimension'' \<and>
      (case w3cReferences token of
         None \<Rightarrow> False
       | Some r \<Rightarrow>
           (case map_of tokens r of None \<Rightarrow> False | Some t \<Rightarrow> w3cType t = ''dimension'')))"

fun classifyW3C ::
  "(string \<times> 'v w3cToken) list \<Rightarrow> (string \<times> 'v w3cToken) list
     \<Rightarrow> (string \<times> 'v w3cToken) list \<times> (string \<times> 'v w3cToken) list" where
  "classifyW3C tokens [] = ([], [])"
| "classifyW3C tokens ((tokenName, token) # rest) =
     (case classifyW3C tokens rest of
        (primitives, semantics) \<Rightarrow>
          if truthy (w3cReferences token) then
            (if isDimensionReferencingDimension tokens token
             then ((tokenName, token) # primitives, semantics)
             else (primitives, (tokenName, token) # semantics))
          else ((tokenName, token) # primitives, semantics))"

definition classifyTokensW3C ::
  "(string \<times> 'v w3cToken) list
     \<Rightarrow> (string \<times> 'v w3cToken) list \<times> (string \<times> 'v w3cToken) list" where
  "classifyTokensW3C tokens = classifyW3C tokens tokens"

subsection \<open>Example token sets\<close>

text \<open>
  A token as \<open>flattenTokens\<close> leaves it: name, value, type and the normalized reference.
\<close>

definition exampleToken ::
  "string \<Rightarrow> string \<Rightarrow> string \<Rightarrow> string option \<Rightarrow> (string, unit) token" where
  "exampleToken n v ty r =
     \<lparr> name = n, val = v, type = ty, rawValue = v, references = r, metadata = (),
       isLegacy = False, category = None, group = None \<rparr>"

text \<open>A chain \<open>a \<rightarrow> b \<rightarrow> c\<close> ending in a literal.\<close>

definition chainTokens :: "(string, unit) token list" where
  "chainTokens =
     [exampleToken ''a'' ''{b}'' ''color'' (Some ''b''),
      exampleToken ''b'' ''{c}'' ''color'' (Some ''c''),
      exampleToken ''c'' ''#111111'' ''color'' None]"

text \<open>A cycle \<open>x \<rightarrow> y \<rightarrow> x\<close> followed by a token \<open>p \<rightarrow> q\<close> that resolves.\<close>

definition cycleTokens :: "(string, unit) token list" where
  "cycleTokens =
     [exampleToken ''x'' ''{y}'' ''color'' (Some ''y''),
      exampleToken ''y'' ''{x}'' ''color'' (Some ''x''),
      exampleToken ''p'' ''{q}'' ''color'' (Some ''q''),
      exampleToken ''q'' ''#222222'' ''color'' None]"

text \<open>A raw scale step and a named gap pointing at it, both of type \<open>dimension\<close>.\<close>

definition gapTokens :: "(string, unit) token list" where
  "gapTokens =
     [exampleToken ''scale-200'' ''16px'' ''dimension'' None,
      exampleToken ''gap-m'' ''16px'' ''dimension'' (Some ''scale-200'')]"

definition gapTokensW3C :: "(string \<times> string w3cToken) list" where
  "gapTokensW3C =
     [(''scale.200'',
       \<lparr> w3cType = ''dimension'', w3cValue = ''16px'', w3cPath = [''scale'', ''200''],
         w3cDescription = [], w3cReferences = None \<rparr>),
      (''Gap.M'',
       \<lparr> w3cType = ''dimension'', w3cValue = ''16px'', w3cPath = [''Gap'', ''M''],
         w3cDescription = [], w3cReferences = Some ''scale.200'' \<rparr>)]"

section \<open>Parsed JSON documents\<close>

text \<open>
  The value \<open>JSON.parse\<close> returns. An object is the list of its entries in the order of
  \<open>Object.entries\<close>, with distinct keys. Numbers are modelled as integers.
\<close>

datatype json =
    JNull | JBool bool | JNum int | JStr string | JArr "json list"
  | JObj "(string \<times> json) list"

text \<open>Decimal rendering of a number, as in a template literal or \<open>JSON.stringify\<close>.\<close>

function showNat :: "nat \<Rightarrow> string" where
  "showNat n =
     (if n < 10 then [char_of (48 + n)]
      else showNat (n div 10) @ [char_of (48 + n mod 10)])"
  by pat_completeness auto
termination
  by (relation "measure id") auto

declare showNat.simps [simp del]

definition showInt :: "int \<Rightarrow> string" where
  "showInt i = (if i < 0 then CHR ''-'' # showNat (nat (- i)) else showNat (nat i))"

definition hexDigit :: "nat \<Rightarrow> char" where
  "hexDigit d = (if d < 10 then char_of (48 + d) else char_of (87 + d))"

text \<open>\<open>JSON.stringify\<close> of a string: quotes, with the escapes of the standard.\<close>

definition escapeChar :: "char \<Rightarrow> string" where
  "escapeChar c =
     (let n = (of_char c :: nat) in
      if n = 34 then [CHR 0x5C, CHR 0x22]
      else if n = 92 then [CHR 0x5C, CHR 0x5C]
      else if n = 8 then [CHR 0x5C, CHR ''b'']
      else if n = 9 then [CHR 0x5C, CHR ''t'']
      else if n = 10 then [CHR 0x5C, CHR ''n'']
      else if n = 12 then [CHR 0x5C, CHR ''f'']
      else if n = 13 then [CHR 0x5C, CHR ''r'']
      else if n < 32 then
        [CHR 0x5C, CHR ''u'', CHR ''0'', CHR ''0'', hexDigit (n div 16), hexDigit (n mod 16)]
      else [c])"

definition quoteJSONString :: "string \<Rightarrow> string" where
  "quoteJSONString s = CHR 0x22 # concat (map escapeChar s) @ [CHR 0x22]"

fun stringify :: "json \<Rightarrow> string" where
  "stringify JNull = ''null''"
| "stringify (JBool b) = (if b then ''true'' else ''false'')"
| "stringify (JNum n) = showInt n"
| "stringify (JStr s) = quoteJSONString s"
| "stringify (JArr xs) = ''['' @ join '','' (map stringify xs) @ '']''"
| "stringify (JObj kvs) =
     ''{'' @ join '','' (map (\<lambda>(k, v). quoteJSONString k @ '':'' @ stringify v) kvs) @ ''}''"

text \<open>\<open>key in v\<close> for the keys the scripts test; none of them is a property of an array.\<close>

fun hasKey :: "string \<Rightarrow> json \<Rightarrow> bool" where
  "hasKey k (JObj kvs) = (k \<in> set (map fst kvs))"
| "hasKey k _ = False"

text \<open>\<open>typeof v === 'object' && v !== null\<close>\<close>

fun isObject :: "json \<Rightarrow> bool" where
  "isObject (JObj kvs) = True"
| "isObject (JArr xs) = True"
| "isObject _ = False"

text \<open>JavaScript truthiness of a parsed value.\<close>

fun jsTruthy :: "json \<Rightarrow> bool" where
  "jsTruthy JNull = False"
| "jsTruthy (JBool b) = b"
| "jsTruthy (JNum n) = (n \<noteq> 0)"
| "jsTruthy (JStr s) = (s \<noteq> [])"
| "jsTruthy _ = True"

section \<open>Format detector (universal parser)\<close>

text \<open>\<open>str.replace(/\{[^{}]*\}/g, '')\<close>: every brace pair without a brace inside is removed.\<close>

function stripInnerBraces :: "string \<Rightarrow> string" where
  "stripInnerBraces [] = []"
| "stripInnerBraces (c # cs) =
     (if c = CHR ''{'' then
        (case dropWhile (\<lambda>x. x \<noteq> CHR ''{'' \<and> x \<noteq> CHR ''}'') cs of
           [] \<Rightarrow> c # stripInnerBraces cs
         | d # rest \<Rightarrow> if d = CHR ''}'' then stripInnerBraces rest else c # stripInnerBraces cs)
      else c # stripInnerBraces cs)"
  by pat_completeness auto
termination
proof (relation "measure length")
  show "wf (measure length)" by simp
next
  fix c :: char and cs d rest
  assume "dropWhile (\<lambda>x. x \<noteq> CHR ''{'' \<and> x \<noteq> CHR ''}'') cs = d # rest"
  then have "length (d # rest) \<le> length cs"
    by (metis length_dropWhile_le)
  then show "(rest, c # cs) \<in> measure length" by simp
qed auto

text \<open>\<open>/\{[^}]+\}/.test(s)\<close>: an opening brace, at least one character, a closing brace.\<close>

fun hasBraceGroup :: "string \<Rightarrow> bool" where
  "hasBraceGroup [] = False"
| "hasBraceGroup (c # cs) =
     ((c = CHR ''{'' \<and> takeWhile (\<lambda>x. x \<noteq> CHR ''}'') cs \<noteq> []
        \<and> dropWhile (\<lambda>x. x \<noteq> CHR ''}'') cs \<noteq> [])
      \<or> hasBraceGroup cs)"

definition dq :: string where
  "dq = [CHR 0x22]"

definition hasW3CFormat :: "json \<Rightarrow> bool" where
  "hasW3CFormat data =
     (let str = stringify data in
      str_includes str (dq @ ''$type'' @ dq) \<or>
      str_includes str (dq @ ''$value'' @ dq) \<or>
      hasBraceGroup (stripInnerBraces str))"

definition detectW3CVersion :: "(string \<times> json) list \<Rightarrow> string" where
  "detectW3CVersion entries =
     (case map_of entries ''$schema'' of
        Some v \<Rightarrow> if jsTruthy v then ''draft-spec'' else ''1.0''
      | None \<Rightarrow> ''1.0'')"

definition hasTokensStudioFormat :: "json \<Rightarrow> bool" where
  "hasTokensStudioFormat data =
     (let str = stringify data in
      str_includes str (dq @ ''type'' @ dq @ '':'' @ dq) \<and>
      (str_includes str (dq @ ''value'' @ dq @ '':'')
       \<or> str_includes str (dq @ ''$value'' @ dq @ '':'')))"

definition hasStyleDictionaryFormat :: "(string \<times> json) list \<Rightarrow> bool" where
  "hasStyleDictionaryFormat entries =
     (case entries of
        [] \<Rightarrow> False
      | (k, firstValue) # _ \<Rightarrow>
          if isObject firstValue then hasKey ''value'' firstValue \<and> hasKey ''type'' firstValue
          else False)"

fun isStringOrNumber :: "json \<Rightarrow> bool" where
  "isStringOrNumber (JStr s) = True"
| "isStringOrNumber (JNum n) = True"
| "isStringOrNumber _ = False"

definition hasSimpleFormat :: "(string \<times> json) list \<Rightarrow> bool" where
  "hasSimpleFormat entries =
     list_all (\<lambda>v. isStringOrNumber v \<or>
                   (isObject v \<and> \<not> hasKey ''$type'' v \<and> \<not> hasKey ''type'' v))
       (map snd entries)"

definition isHexDigit :: "char \<Rightarrow> bool" where
  "isHexDigit c =
     (isDigit c \<or> (97 \<le> (of_char c :: nat) \<and> (of_char c :: nat) \<le> 102)
                \<or> (65 \<le> (of_char c :: nat) \<and> (of_char c :: nat) \<le> 70))"

text \<open>\<open>/^#[0-9A-Fa-f]{6}$/\<close>, \<open>/^\d+px$/\<close> and \<open>/^rgba?\(/\<close>\<close>

definition isHashHex6 :: "string \<Rightarrow> bool" where
  "isHashHex6 s =
     (case s of [] \<Rightarrow> False
      | c # h \<Rightarrow> c = CHR ''#'' \<and> length h = 6 \<and> list_all isHexDigit h)"

definition isDigitsPx :: "string \<Rightarrow> bool" where
  "isDigitsPx s = (takeWhile isDigit s \<noteq> [] \<and> dropWhile isDigit s = ''px'')"

definition isRgbCall :: "string \<Rightarrow> bool" where
  "isRgbCall s = (startsWith s ''rgb('' \<or> startsWith s ''rgba('')"

definition detectSimpleCategory :: "(string \<times> json) list \<Rightarrow> string \<Rightarrow> string" where
  "detectSimpleCategory entries filename =
     (let nm = toLowerCase filename;
          firstKey = (case entries of [] \<Rightarrow> [] | (k, v) # _ \<Rightarrow> toLowerCase k)
      in
      if str_includes nm ''color'' then ''color''
      else if str_includes nm ''spacing'' \<or> str_includes nm ''space'' then ''spacing''
      else if str_includes nm ''typography'' \<or> str_includes nm ''font'' then ''typography''
      else if str_includes nm ''radius'' \<or> str_includes nm ''border'' then ''radius''
      else if str_includes nm ''shadow'' \<or> str_includes nm ''elevation'' then ''shadow''
      else if str_includes firstKey ''color'' \<or> str_includes firstKey ''bg''
              \<or> str_includes firstKey ''text'' then ''color''
      else if str_includes firstKey ''spacing'' \<or> str_includes firstKey ''gap''
              \<or> str_includes firstKey ''margin'' then ''spacing''
      else (case entries of
              (k, JStr firstValue) # _ \<Rightarrow>
                if isHashHex6 firstValue then ''color''
                else if isDigitsPx firstValue then ''spacing''
                else if isRgbCall firstValue then ''color''
                else ''unknown''
            | _ \<Rightarrow> ''unknown''))"

datatype tokenFormat = W3C | TokensStudio | StyleDictionary | Simple | Unknown

record detection =
  format :: tokenFormat
  version :: "string option"
  simpleCategory :: "string option"
  confidence :: string

text \<open>
  \<open>detectTokenFormat(tokenData, filename)\<close>; \<open>entries\<close> are the entries of the parsed
  document, which is a JSON object.
\<close>

definition detectTokenFormat :: "(string \<times> json) list \<Rightarrow> string \<Rightarrow> detection" where
  "detectTokenFormat entries filename =
     (if hasW3CFormat (JObj entries) then
        \<lparr> format = W3C, version = Some (detectW3CVersion entries), simpleCategory = None,
          confidence = ''high'' \<rparr>
      else if hasTokensStudioFormat (JObj entries) then
        \<lparr> format = TokensStudio, version = Some ''1.0'', simpleCategory = None,
          confidence = ''high'' \<rparr>
      else if hasStyleDictionaryFormat entries then
        \<lparr> format = StyleDictionary, version = Some ''3.0'', simpleCategory = None,
          confidence = ''high'' \<rparr>
      else if hasSimpleFormat entries then
        \<lparr> format = Simple, version = None,
          simpleCategory = Some (detectSimpleCategory entries filename),
          confidence = ''medium'' \<rparr>
      else
        \<lparr> format = Unknown, version = None, simpleCategory = None, confidence = ''low'' \<rparr>)"

text \<open>
  The W3C shape in the words of the specification, for comparison with the code: some key
  of the document, at any depth, starts with \<open>$type\<close> or \<open>$value\<close>, or some string value
  is a brace-wrapped reference (\<open>^\{[^}]+\}$\<close>).
\<close>

definition spec_isReference :: "string \<Rightarrow> bool" where
  "spec_isReference s =
     (case s of
        [] \<Rightarrow> False
      | c # rest \<Rightarrow>
          c = CHR ''{'' \<and> 2 \<le> length rest \<and> last rest = CHR ''}''
          \<and> CHR ''}'' \<notin> set (butlast rest))"

fun spec_hasW3CShape :: "json \<Rightarrow> bool" where
  "spec_hasW3CShape (JStr s) = spec_isReference s"
| "spec_hasW3CShape (JArr xs) = list_ex spec_hasW3CShape xs"
| "spec_hasW3CShape (JObj kvs) =
     list_ex (\<lambda>(k, v). startsWith k ''$type'' \<or> startsWith k ''$value''
                       \<or> spec_hasW3CShape v) kvs"
| "spec_hasW3CShape _ = False"

text \<open>A Tokens Studio document and a plain nested document, neither with a W3C marker.\<close>

definition tokensStudioDoc :: "(string \<times> json) list" where
  "tokensStudioDoc =
     [(''colors'',
       JObj [(''red'', JObj [(''value'', JStr ''#ff0000''), (''type'', JStr ''color'')])])]"

definition nestedDoc :: "(string \<times> json) list" where
  "nestedDoc = [(''spacing'', JObj [(''small'', JStr ''4px'')])]"

section \<open>Stylesheet emitters\<close>

definition nl :: string where
  "nl = [CHR 0x0A]"

subsection \<open>Universal parser: generateCSSVariables and the semantic part of transformAndOutput\<close>








subsection \<open>Figma transformer: buildCSSVar and the stylesheet of transformSemanticColors\<close>

datatype tier = PrimitiveTier | SemanticTier

definition buildCSSVar :: "config \<Rightarrow> tier \<Rightarrow> string \<Rightarrow> string" where
  "buildCSSVar cfg tr tokenName =
     (let pfx = (case tr of PrimitiveTier \<Rightarrow> cssPrefixPrimitive cfg
                             | SemanticTier \<Rightarrow> cssPrefixSemantic cfg)
      in if pfx \<noteq> [] then ''--'' @ pfx @ ''-'' @ tokenName else ''--'' @ tokenName)"

text \<open>One entry of the semantic stylesheet, for a key and the primitive it refers to.\<close>

definition semanticColorEntry :: "config \<Rightarrow> string \<times> string \<Rightarrow> string" where
  "semanticColorEntry cfg kr =
     (case kr of (key, primitiveRef) \<Rightarrow>
        ''  '' @ buildCSSVar cfg SemanticTier key @ '': var(''
        @ buildCSSVar cfg PrimitiveTier primitiveRef @ '');'' @ nl)"

definition semanticCssHeader :: string where
  "semanticCssHeader =
     ''/**'' @ nl @ '' * Semantic Color Tokens - Auto-generated from Figma'' @ nl
     @ '' * Source: imported-from-figma/Colors.json'' @ nl
     @ '' * DO NOT EDIT MANUALLY - Run '' @ [CHR 0x27] @ ''npm run tokens:transform''
     @ [CHR 0x27] @ '' to regenerate'' @ nl @ '' */'' @ nl @ nl @ '':root {'' @ nl"

text \<open>
  The \<open>css\<close> string of \<open>transformSemanticColors\<close>; \<open>semanticGroups\<close> maps a group name to
  its entries, each a cleaned key with the name of the primitive it refers to.
\<close>

definition semanticColorsCss ::
  "config \<Rightarrow> (string \<times> (string \<times> string) list) list \<Rightarrow> string" where
  "semanticColorsCss cfg semanticGroups =
     semanticCssHeader
     @ concat (map (\<lambda>(groupName, tokens).
                 ''  /* '' @ groupName @ '' Colors */'' @ nl
                 @ concat (map (semanticColorEntry cfg) tokens) @ nl) semanticGroups)
     @ ''}'' @ nl"


section \<open>Color family synthesizer (Figma transformer)\<close>

subsection \<open>Hex colors and RGB distance\<close>

record rgb =
  rgbR :: nat
  rgbG :: nat
  rgbB :: nat

text \<open>\<open>parseInt(d, 16)\<close> on one hex digit.\<close>

definition hexVal :: "char \<Rightarrow> nat" where
  "hexVal c =
     (let n = (of_char c :: nat) in
      if isDigit c then n - 48 else if 97 \<le> n then n - 87 else n - 55)"

text \<open>
  \<open>hexToRgb\<close>: the pattern \<open>/^#?([a-f\d]{2})([a-f\d]{2})([a-f\d]{2})$/i\<close>, an optional
  \<open>#\<close> and exactly six hex digits; \<open>None\<close> is \<open>null\<close>.
\<close>

definition hexToRgb :: "string \<Rightarrow> rgb option" where
  "hexToRgb hex =
     (let h = (case hex of [] \<Rightarrow> hex | c # rest \<Rightarrow> if c = CHR ''#'' then rest else hex) in
      if length h = 6 \<and> list_all isHexDigit h then
        Some \<lparr> rgbR = 16 * hexVal (h ! 0) + hexVal (h ! 1),
               rgbG = 16 * hexVal (h ! 2) + hexVal (h ! 3),
               rgbB = 16 * hexVal (h ! 4) + hexVal (h ! 5) \<rparr>
      else None)"


text \<open>\<open>distance < closestDistance\<close> with \<open>Infinity\<close> as \<open>None\<close>.\<close>

definition distLess :: "int option \<Rightarrow> int option \<Rightarrow> bool" where
  "distLess d e =
     (case d of None \<Rightarrow> False
      | Some x \<Rightarrow> (case e of None \<Rightarrow> True | Some y \<Rightarrow> x < y))"



subsection \<open>HSL analysis and palette names\<close>

text \<open>
  \<open>rgbToHsl\<close>. The source computes in doubles; the model computes the same expressions in
  exact rational arithmetic. The hue is \<open>None\<close> where the source would leave \<open>h\<close>
  undefined (no case of the \<open>switch\<close> taken), which makes \<open>h * 360\<close> not a number.
\<close>

definition rgbToHsl :: "nat \<Rightarrow> nat \<Rightarrow> nat \<Rightarrow> rat option \<times> rat \<times> rat" where
  "rgbToHsl r0 g0 b0 =
     (let r = (of_nat r0 :: rat) / 255;
          g = (of_nat g0 :: rat) / 255;
          b = (of_nat b0 :: rat) / 255;
          mx = max r (max g b);
          mn = min r (min g b);
          l = (mx + mn) / 2
      in
      if mx = mn then (Some 0, 0, l * 100)
      else
        (let d = mx - mn;
             s = (if l > 1 / 2 then d / (2 - mx - mn) else d / (mx + mn));
             h = (if mx = r then Some (((g - b) / d + (if g < b then 6 else 0)) / 6)
                  else if mx = g then Some (((b - r) / d + 2) / 6)
                  else if mx = b then Some (((r - g) / d + 4) / 6)
                  else None)
         in (map_option (\<lambda>x. x * 360) h, s * 100, l * 100)))"

text \<open>\<open>findAvailable\<close>: the first candidate not in use, else the first candidate.\<close>

definition findAvailable :: "string list \<Rightarrow> string list \<Rightarrow> string" where
  "findAvailable usedNames names =
     (case filter (\<lambda>n. n \<notin> set usedNames) names of
        n # _ \<Rightarrow> n
      | [] \<Rightarrow> (case names of n # _ \<Rightarrow> n | [] \<Rightarrow> []))"

text \<open>
  The chain of hue tests of \<open>getPureColorName\<close>. With the hue not a number every
  comparison is false and the fallback is reached.
\<close>

definition pureColorName :: "rat option \<Rightarrow> rat \<Rightarrow> rat \<Rightarrow> string list \<Rightarrow> string" where
  "pureColorName hue s l usedNames =
     (case hue of
        None \<Rightarrow> ''unknown''
      | Some h \<Rightarrow>
          if h < 15 \<or> h \<ge> 345 then
            (if s < 30 then findAvailable usedNames [''rose'', ''pink'', ''blush'']
             else if l > 70 then findAvailable usedNames [''coral'', ''salmon'', ''rose'']
             else if l > 50 then findAvailable usedNames [''crimson'', ''ruby'', ''cherry'']
             else findAvailable usedNames [''ruby'', ''crimson'', ''garnet''])
          else if h \<ge> 15 \<and> h < 45 then
            (if l > 65 then findAvailable usedNames [''peach'', ''apricot'', ''cream'']
             else if s > 70 then findAvailable usedNames [''tangerine'', ''persimmon'', ''tiger'']
             else findAvailable usedNames [''amber'', ''bronze'', ''copper''])
          else if h \<ge> 45 \<and> h < 70 then
            (if l > 70 then findAvailable usedNames [''lemon'', ''butter'', ''vanilla'']
             else if s > 60 then findAvailable usedNames [''gold'', ''honey'', ''mustard'']
             else findAvailable usedNames [''olive'', ''khaki'', ''sand''])
          else if h \<ge> 70 \<and> h < 150 then
            (if l > 70 then findAvailable usedNames [''mint'', ''sage'', ''seafoam'']
             else if h < 100 then findAvailable usedNames [''lime'', ''chartreuse'', ''spring'']
             else if s < 30 then findAvailable usedNames [''sage'', ''moss'', ''olive'']
             else if l > 50 then findAvailable usedNames [''emerald'', ''jade'', ''forest'']
             else findAvailable usedNames [''forest'', ''hunter'', ''pine''])
          else if h \<ge> 150 \<and> h < 200 then
            (if l > 70 then findAvailable usedNames [''aqua'', ''ice'', ''frost'']
             else if l > 50 then findAvailable usedNames [''teal'', ''turquoise'', ''cyan'']
             else findAvailable usedNames [''ocean'', ''deep'', ''marine''])
          else if h \<ge> 200 \<and> h < 260 then
            (if l > 70 then findAvailable usedNames [''sky'', ''powder'', ''baby'']
             else if s < 30 then findAvailable usedNames [''slate'', ''steel'', ''pewter'']
             else if l > 60 then findAvailable usedNames [''azure'', ''cerulean'', ''periwinkle'']
             else if l > 40 then findAvailable usedNames [''royal'', ''sapphire'', ''cobalt'']
             else findAvailable usedNames [''navy'', ''midnight'', ''indigo''])
          else if h \<ge> 260 \<and> h < 300 then
            (if l > 70 then findAvailable usedNames [''lavender'', ''lilac'', ''mauve'']
             else if s < 30 then findAvailable usedNames [''plum'', ''eggplant'', ''wine'']
             else if l > 50 then findAvailable usedNames [''violet'', ''amethyst'', ''orchid'']
             else findAvailable usedNames [''purple'', ''grape'', ''mulberry''])
          else if h \<ge> 300 \<and> h < 345 then
            (if l > 70 then findAvailable usedNames [''pink'', ''rose'', ''blush'']
             else if s > 60 then findAvailable usedNames [''magenta'', ''fuchsia'', ''hot'']
             else findAvailable usedNames [''berry'', ''wine'', ''maroon''])
          else ''unknown'')"

text \<open>
  \<open>getPureColorName(hexValues, existingPrimitives)\<close>. The middle element of an empty array
  is \<open>undefined\<close>, which \<open>hexToRgb\<close> does not parse. \<open>usedNames\<close> are the first segments of
  the existing primitive names, each once.
\<close>

definition getPureColorName :: "string list \<Rightarrow> (string \<times> string) list \<Rightarrow> string" where
  "getPureColorName hexValues existingPrimitives =
     (if hexValues = [] then ''unknown''
      else
        (case hexToRgb (hexValues ! (length hexValues div 2)) of
           None \<Rightarrow> ''unknown''
         | Some c \<Rightarrow>
             (case rgbToHsl (rgbR c) (rgbG c) (rgbB c) of
                (h, s, l) \<Rightarrow>
                  (let usedNames =
                         rev (remdups (rev (map (\<lambda>(nm, v). (case split CHR ''-'' nm of
                                                              p # _ \<Rightarrow> p | [] \<Rightarrow> []))
                                               existingPrimitives)))
                   in pureColorName h s l usedNames))))"

text \<open>Every name a hue bucket can return.\<close>

definition familyNames :: "string list" where
  "familyNames =
     [''rose'', ''pink'', ''blush'', ''coral'', ''salmon'', ''crimson'', ''ruby'', ''cherry'',
      ''garnet'', ''peach'', ''apricot'', ''cream'', ''tangerine'', ''persimmon'', ''tiger'',
      ''amber'', ''bronze'', ''copper'', ''lemon'', ''butter'', ''vanilla'', ''gold'',
      ''honey'', ''mustard'', ''olive'', ''khaki'', ''sand'', ''mint'', ''sage'', ''seafoam'',
      ''lime'', ''chartreuse'', ''spring'', ''moss'', ''emerald'', ''jade'', ''forest'',
      ''hunter'', ''pine'', ''aqua'', ''ice'', ''frost'', ''teal'', ''turquoise'', ''cyan'',
      ''ocean'', ''deep'', ''marine'', ''sky'', ''powder'', ''baby'', ''slate'', ''steel'',
      ''pewter'', ''azure'', ''cerulean'', ''periwinkle'', ''royal'', ''sapphire'',
      ''cobalt'', ''navy'', ''midnight'', ''indigo'', ''lavender'', ''lilac'', ''mauve'',
      ''plum'', ''eggplant'', ''wine'', ''violet'', ''amethyst'', ''orchid'', ''purple'',
      ''grape'', ''mulberry'', ''magenta'', ''fuchsia'', ''hot'', ''berry'', ''maroon'']"

subsection \<open>Grouping, sorting and palette synthesis\<close>

text \<open>
  An entry of a semantic color group as \<open>extractSemanticColorGroups\<close> pushes it: the key,
  the hardcoded \<open>$value\<close> and the joined path.
\<close>

record color =
  colorName :: string
  colorValue :: string
  fullPath :: string














subsection \<open>Closeness, stated on the primitive set\<close>



subsection \<open>Example color data\<close>





section \<open>Properties of the name normalizer\<close>

lemma split_not_Nil: "split d s \<noteq> []"
  by (induction s) (auto split: list.splits)

lemma join_split: "join [d] (split d s) = s"
proof (induction s)
  case Nil
  show ?case by simp
next
  case (Cons c cs)
  obtain p ps where sp: "split d cs = p # ps"
    using split_not_Nil[of d cs] by (cases "split d cs") auto
  show ?case using Cons sp by (cases ps) auto
qed

subsection \<open>cleanTokenName against the specification's wording\<close>














subsection \<open>reorderSemanticToken\<close>

lemma indexOf_None: "(indexOf xs x = None) = (x \<notin> set xs)"
  by (induction xs) auto

lemma indexOf_Some:
  "indexOf xs x = Some i \<Longrightarrow>
   i < length xs \<and> xs ! i = x \<and> take i xs @ drop (Suc i) xs = remove1 x xs"
  by (induction xs arbitrary: i) (auto split: if_splits)

lemma indexOf_zero: "(indexOf xs x = Some 0) = (xs \<noteq> [] \<and> hd xs = x)"
  by (cases xs) auto

lemma indexOf_pos: "(\<exists>i. indexOf xs x = Some (Suc i)) = (x \<in> set xs \<and> hd xs \<noteq> x)"
proof (cases "indexOf xs x")
  case None
  then show ?thesis using indexOf_None[of xs x] by simp
next
  case (Some j)
  then have "x \<in> set xs" using indexOf_None[of xs x] by auto
  moreover have "xs \<noteq> []" using Some by auto
  ultimately show ?thesis using Some indexOf_zero[of xs x] by (cases j) auto
qed

lemma reorderLoop_find:
  "reorderLoop kws parts nm =
     (case find (\<lambda>k. k \<in> set parts \<and> hd parts \<noteq> k) kws of
        None \<Rightarrow> nm
      | Some k \<Rightarrow> join ''-'' (k # remove1 k parts))"
proof (induction kws)
  case Nil
  show ?case by simp
next
  case (Cons k kws)
  show ?case
  proof (cases "k \<in> set parts \<and> hd parts \<noteq> k")
    case True
    then obtain i where i: "indexOf parts k = Some (Suc i)"
      using indexOf_pos[of parts k] by blast
    from indexOf_Some[OF i] show ?thesis using True i by simp
  next
    case False
    then have "\<not> (\<exists>i. indexOf parts k = Some (Suc i))"
      using indexOf_pos[of parts k] by blast
    then have r: "reorderLoop (k # kws) parts nm = reorderLoop kws parts nm"
      by (auto split: option.splits nat.splits)
    have f: "find (\<lambda>k. k \<in> set parts \<and> hd parts \<noteq> k) (k # kws)
           = find (\<lambda>k. k \<in> set parts \<and> hd parts \<noteq> k) kws"
      using False by auto
    show ?thesis unfolding r f by (rule Cons)
  qed
qed

text \<open>
  C7 as stated fails: a name whose first segment already is a configured keyword is not
  always returned unchanged. With the README keywords, \<open>text-on-surface\<close> leads with the
  keyword \<open>text\<close>, and the later keyword \<open>surface\<close> is still moved to the front.
\<close>

theorem reorderSemanticToken_leading_keyword_counterexample:
  "reorderSemanticTokens readmeConfig
   \<and> hd (split CHR ''-'' ''text-on-surface'') = ''text''
   \<and> ''text'' \<in> set (categoryKeywords readmeConfig)
   \<and> reorderSemanticToken readmeConfig ''text-on-surface'' = ''surface-text-on''
   \<and> reorderSemanticToken readmeConfig ''text-on-surface'' \<noteq> ''text-on-surface''"
  by code_simp

text \<open>
  C7 (amended). With the feature enabled, the configured keywords are tried in
  configuration order; the first keyword that is a segment of the name without being its
  first segment has its first occurrence moved to the front. If there is no such keyword
  (no segment is a keyword, or every keyword that occurs is the first segment) the name is
  returned unchanged. With the feature disabled the name is always returned unchanged.
\<close>

theorem reorderSemanticToken_first_configured_keyword:
  "reorderSemanticToken cfg nm =
     (if \<not> reorderSemanticTokens cfg then nm
      else (case find (\<lambda>k. k \<in> set (split CHR ''-'' nm) \<and> hd (split CHR ''-'' nm) \<noteq> k)
                   (categoryKeywords cfg) of
              None \<Rightarrow> nm
            | Some k \<Rightarrow> join ''-'' (k # remove1 k (split CHR ''-'' nm))))"
  by (simp add: reorderSemanticToken_def reorderLoop_find)

theorem reorderSemanticToken_first_configured_keyword_witness:
  "reorderSemanticToken (readmeConfig\<lparr>categoryKeywords := [''text'']\<rparr>) ''primary-black-text''
     = ''text-primary-black''
   \<and> reorderSemanticToken (readmeConfig\<lparr>categoryKeywords := [''text'']\<rparr>) ''primary-main''
     = ''primary-main''"
proof -
  let ?cfg = "readmeConfig\<lparr>categoryKeywords := [''text'']\<rparr>"
  have e: "reorderSemanticTokens ?cfg" by code_simp
  have k: "categoryKeywords ?cfg = [''text'']" by simp
  have s1: "split CHR ''-'' ''primary-black-text'' = [''primary'', ''black'', ''text'']"
    by code_simp
  have s2: "split CHR ''-'' ''primary-main'' = [''primary'', ''main'']"
    by code_simp
  show ?thesis
    using reorderSemanticToken_first_configured_keyword[of ?cfg "''primary-black-text''"]
          reorderSemanticToken_first_configured_keyword[of ?cfg "''primary-main''"]
    unfolding s1 s2 k using e by simp
qed

section \<open>Properties of reference resolution\<close>

lemma tokenMap_names:
  assumes "map name ts' = map name ts"
  shows "tokenMap ts' = tokenMap ts"
proof -
  have l: "length ts' = length ts" using assms by (metis length_map)
  have "\<And>j. j < length ts \<Longrightarrow> name (ts' ! j) = name (ts ! j)"
    using assms l by (metis nth_map)
  then have "map (\<lambda>j. (name (ts' ! j), j)) [0..<length ts] = map (\<lambda>j. (name (ts ! j), j)) [0..<length ts]"
    by simp
  then show ?thesis unfolding tokenMap_def l by (simp only:)
qed

lemma tokenMap_Some: "tokenMap ts n = Some j \<Longrightarrow> j < length ts \<and> name (ts ! j) = n"
  unfolding tokenMap_def by (auto dest!: map_of_SomeD)

lemma agree_names: "agree ts ts' \<Longrightarrow> map name ts' = map name ts"
  by (auto simp: agree_def intro: nth_equalityI)

lemma agree_refl: "agree ts ts"
  by (simp add: agree_def)

lemma followChain_stop:
  "currentRef = [] \<or> \<not> depth < maxD \<Longrightarrow>
   followChain ts maxD currentRef depth = (LoopEnd, depth)"
  by (subst followChain.simps) auto

lemma followChain_step:
  "currentRef \<noteq> [] \<Longrightarrow> depth < maxD \<Longrightarrow>
   followChain ts maxD currentRef depth =
     (case tokenMap ts currentRef of
        None \<Rightarrow> (Missing currentRef, depth)
      | Some j \<Rightarrow>
          (case references (ts ! j) of
             None \<Rightarrow> (Literal (val (ts ! j)), depth)
           | Some r \<Rightarrow>
               if r = [] then (Literal (val (ts ! j)), depth)
               else followChain ts maxD r (depth + 1)))"
  by (subst followChain.simps) simp

lemma followChain_agree:
  assumes "agree ts ts'"
  shows "followChain ts' m r d = followChain ts m r d"
  using assms
proof (induction ts m r d rule: followChain.induct)
  case (1 tokens maxD currentRef depth)
  have tm: "tokenMap ts' = tokenMap tokens"
    using tokenMap_names[OF agree_names[OF "1.prems"]] .
  show ?case
  proof (cases "currentRef \<noteq> [] \<and> depth < maxD")
    case False
    then show ?thesis by (simp add: followChain_stop)
  next
    case True
    then have c: "currentRef \<noteq> []" "depth < maxD" by auto
    show ?thesis
    proof (cases "tokenMap tokens currentRef")
      case None
      then show ?thesis using tm by (simp add: followChain_step[OF c])
    next
      case (Some j)
      then have j: "j < length tokens" using tokenMap_Some by blast
      have rf: "references (ts' ! j) = references (tokens ! j)"
        using "1.prems" j by (simp add: agree_def)
      show ?thesis
      proof (cases "references (tokens ! j)")
        case None
        then have "val (ts' ! j) = val (tokens ! j)"
          using "1.prems" j by (simp add: agree_def truthy_def)
        then show ?thesis using tm Some None rf
          by (simp add: followChain_step[OF c])
      next
        case (Some r)
        note Sr = this
        show ?thesis
        proof (cases "r = []")
          case True
          then have "val (ts' ! j) = val (tokens ! j)"
            using "1.prems" j Sr by (simp add: agree_def truthy_def)
          then show ?thesis using tm \<open>tokenMap tokens currentRef = Some j\<close> Sr rf True
            by (simp add: followChain_step[OF c])
        next
          case False
          have "followChain ts' maxD r (depth + 1) = followChain tokens maxD r (depth + 1)"
            using "1.IH"[OF \<open>currentRef \<noteq> [] \<and> depth < maxD\<close> \<open>tokenMap tokens currentRef = Some j\<close> Sr False "1.prems"] .
          then show ?thesis using tm \<open>tokenMap tokens currentRef = Some j\<close> Sr rf False
            by (simp add: followChain_step[OF c])
        qed
      qed
    qed
  qed
qed

lemma followChain_depth_le: "d \<le> m \<Longrightarrow> snd (followChain ts m r d) \<le> m"
proof (induction ts m r d rule: followChain.induct)
  case (1 tokens maxD currentRef depth)
  show ?case
  proof (cases "currentRef \<noteq> [] \<and> depth < maxD")
    case False
    then show ?thesis using "1.prems" by (simp add: followChain_stop)
  next
    case True
    then have c: "currentRef \<noteq> []" "depth < maxD" by auto
    show ?thesis using "1.IH" True c
      by (auto simp: followChain_step[OF c] split: option.splits)
  qed
qed

text \<open>A break leaves the loop below the bound.\<close>

lemma followChain_break_depth:
  "followChain ts m r d = (ex, d') \<Longrightarrow> ex \<noteq> LoopEnd \<Longrightarrow> d' < m"
proof (induction ts m r d rule: followChain.induct)
  case (1 tokens maxD currentRef depth)
  show ?case
  proof (cases "currentRef \<noteq> [] \<and> depth < maxD")
    case False
    then show ?thesis using "1.prems" by (simp add: followChain_stop)
  next
    case True
    then have c: "currentRef \<noteq> []" "depth < maxD" by auto
    show ?thesis using "1.IH" "1.prems" True c
      by (auto simp: followChain_step[OF c] split: option.splits if_splits)
  qed
qed

lemma followChain_hops:
  "r \<noteq> [] \<Longrightarrow> d \<le> m \<Longrightarrow>
   (followChain ts m r d = (LoopEnd, m)) = (hops ts (m - d) r \<noteq> None)"
proof (induction ts m r d rule: followChain.induct)
  case (1 tokens maxD currentRef depth)
  show ?case
  proof (cases "depth < maxD")
    case False
    then have "maxD - depth = 0" "depth = maxD" using "1.prems" by auto
    then show ?thesis using False "1.prems" by (simp add: followChain_stop)
  next
    case True
    then obtain k where k: "maxD - depth = Suc k" by (cases "maxD - depth") auto
    then have k': "maxD - (depth + 1) = k" by simp
    have c: "currentRef \<noteq> []" "depth < maxD" using True "1.prems" by auto
    show ?thesis
    proof (cases "nextRef tokens currentRef")
      case None
      then have "fst (followChain tokens maxD currentRef depth) \<noteq> LoopEnd"
        by (auto simp: followChain_step[OF c] nextRef_def truthy_def split: option.splits if_splits)
      then show ?thesis using None k by auto
    next
      case (Some r')
      then obtain j where j: "tokenMap tokens currentRef = Some j" "references (tokens ! j) = Some r'" "r' \<noteq> []"
        by (auto simp: nextRef_def truthy_def split: option.splits if_splits)
      have "followChain tokens maxD currentRef depth = followChain tokens maxD r' (depth + 1)"
        using j by (simp add: followChain_step[OF c])
      moreover have "(followChain tokens maxD r' (depth + 1) = (LoopEnd, maxD)) = (hops tokens (maxD - (depth + 1)) r' \<noteq> None)"
        using "1.IH"[OF _ j(1) j(2) j(3) j(3)] c by simp
      ultimately show ?thesis using Some k k' by simp
    qed
  qed
qed


lemma resolvedToken_fields:
  "name (resolvedToken m ts t) = name t" "references (resolvedToken m ts t) = references t"
  "\<not> truthy (references t) \<Longrightarrow> resolvedToken m ts t = t"
  by (auto simp: resolvedToken_def truthy_def split: option.splits chain_exit.splits)

lemma resolveToken_char:
  assumes "agree ts ts'" "i < length ts"
  shows "resolveToken m ts' i = (ts'[i := resolvedToken m ts (ts' ! i)], tokenWarnings m ts (ts ! i))"
proof -
  have fc: "\<And>r d. followChain ts' m r d = followChain ts m r d"
    using followChain_agree[OF assms(1)] .
  have nr: "name (ts' ! i) = name (ts ! i)" "references (ts' ! i) = references (ts ! i)"
    using assms by (auto simp: agree_def)
  show ?thesis
    unfolding resolveToken_def resolvedToken_def tokenWarnings_def Let_def fc nr
    by (auto split: option.splits chain_exit.splits prod.splits)
qed

lemma agree_update:
  assumes "agree ts ts'" "i < length ts"
  shows "agree ts (ts'[i := resolvedToken m ts (ts' ! i)])"
  using assms resolvedToken_fields[where m = m and ts = ts and t = "ts' ! i"]
  by (auto simp: agree_def nth_list_update)

lemma resolveLoop_char:
  assumes "agree ts ts'" "set is \<subseteq> {..<length ts}"
  shows "resolveLoop m is (ts', ws) =
           (fold (\<lambda>i acc. acc[i := resolvedToken m ts (acc ! i)]) is ts',
            ws @ concat (map (\<lambda>i. tokenWarnings m ts (ts ! i)) is))"
  using assms
proof (induction "is" arbitrary: ts' ws)
  case Nil
  show ?case by simp
next
  case (Cons i "is")
  have i: "i < length ts" using Cons.prems by simp
  have ag: "agree ts (ts'[i := resolvedToken m ts (ts' ! i)])"
    using agree_update[OF Cons.prems(1) i] .
  show ?case
    using Cons.IH[OF ag, of "ws @ tokenWarnings m ts (ts ! i)"] Cons.prems(2)
    by (simp add: resolveToken_char[OF Cons.prems(1) i])
qed

lemma fold_update_length:
  "length (fold (\<lambda>i acc. acc[i := f (acc ! i)]) is acc) = length acc"
  by (induction "is" arbitrary: acc) auto

lemma fold_update_nth:
  "distinct is \<Longrightarrow> set is \<subseteq> {..<length acc} \<Longrightarrow> j < length acc \<Longrightarrow>
   fold (\<lambda>i acc. acc[i := f (acc ! i)]) is acc ! j = (if j \<in> set is then f (acc ! j) else acc ! j)"
proof (induction "is" arbitrary: acc)
  case Nil
  show ?case by simp
next
  case (Cons i "is")
  have "length (acc[i := f (acc ! i)]) = length acc" by simp
  then show ?case using Cons.IH[of "acc[i := f (acc ! i)]"] Cons.prems
    by (auto simp: nth_list_update)
qed

lemma resolveReferences_char:
  "resolveReferences ts =
     (map (resolvedToken maxDepth ts) ts, concat (map (tokenWarnings maxDepth ts) ts))"
proof -
  let ?F = "fold (\<lambda>i acc. acc[i := resolvedToken maxDepth ts (acc ! i)]) [0..<length ts] ts"
  have r: "resolveReferences ts =
      (?F, [] @ concat (map (\<lambda>i. tokenWarnings maxDepth ts (ts ! i)) [0..<length ts]))"
    unfolding resolveReferences_def
    by (rule resolveLoop_char[OF agree_refl]) auto
  have l: "length ?F = length ts" by (rule fold_update_length)
  have "?F = map (resolvedToken maxDepth ts) ts"
  proof (rule nth_equalityI)
    show "length ?F = length (map (resolvedToken maxDepth ts) ts)" using l by simp
  next
    fix j assume "j < length ?F"
    then have j: "j < length ts" using l by simp
    have sub: "set [0..<length ts] \<subseteq> {..<length ts}" by auto
    from fold_update_nth[OF distinct_upt sub j, of "resolvedToken maxDepth ts"]
    show "?F ! j = map (resolvedToken maxDepth ts) ts ! j" using j by simp
  qed
  moreover have "map (\<lambda>i. tokenWarnings maxDepth ts (ts ! i)) [0..<length ts] = map (tokenWarnings maxDepth ts) ts"
    by (rule nth_equalityI) auto
  ultimately show ?thesis using r by simp
qed

lemma agree_resolved: "agree ts (map (resolvedToken m ts) ts)"
  by (auto simp: agree_def resolvedToken_fields)

lemma resolvedToken_idem:
  assumes "agree ts ts'"
  shows "resolvedToken m ts' (resolvedToken m ts t) = resolvedToken m ts t"
proof -
  have fc: "\<And>r d. followChain ts' m r d = followChain ts m r d"
    using followChain_agree[OF assms] .
  show ?thesis
    unfolding resolvedToken_def fc
    by (auto split: option.splits chain_exit.splits)
qed

text \<open>
  C4. Reference resolution is idempotent: running the resolver on the token set it has
  produced returns that token set again, every field of every token unchanged.
\<close>

theorem resolveReferences_idempotent:
  "fst (resolveReferences (fst (resolveReferences ts))) = fst (resolveReferences ts)"
proof -
  let ?once = "map (resolvedToken maxDepth ts) ts"
  have first: "fst (resolveReferences ts) = ?once"
    by (simp add: resolveReferences_char)
  have "fst (resolveReferences ?once) = map (resolvedToken maxDepth ?once) ?once"
    by (simp add: resolveReferences_char)
  also have "\<dots> = ?once"
    by (simp add: resolvedToken_idem[OF agree_resolved])
  finally show ?thesis using first by simp
qed

theorem resolveReferences_idempotent_witness:
  "map val (fst (resolveReferences chainTokens)) = [''#111111'', ''#111111'', ''#111111'']
   \<and> fst (resolveReferences (fst (resolveReferences chainTokens)))
       = fst (resolveReferences chainTokens)"
proof -
  have "map val (fst (resolveReferences chainTokens)) = [''#111111'', ''#111111'', ''#111111'']"
    by code_simp
  then show ?thesis using resolveReferences_idempotent[of chainTokens] by simp
qed

text \<open>
  C5. A token whose reference chain is longer than the maximum depth (ten hops from its
  reference all lead to tokens that hold references themselves) gets a circular-reference
  warning; the chain is not followed further and the token is left as it was, which is
  the value it had reached. The run goes on: the result has every token, and each token
  is what its own iteration makes of it.
\<close>

theorem resolveReferences_depth_exceeded:
  assumes "i < length ts" "references (ts ! i) = Some r" "r \<noteq> []"
      and "hops ts maxDepth r \<noteq> None"
  shows "CircularReference (name (ts ! i)) \<in> set (snd (resolveReferences ts))
       \<and> fst (resolveReferences ts) ! i = ts ! i
       \<and> length (fst (resolveReferences ts)) = length ts
       \<and> (\<forall>j < length ts. fst (resolveReferences ts) ! j = resolvedToken maxDepth ts (ts ! j))"
proof -
  have fc: "followChain ts maxDepth r 0 = (LoopEnd, maxDepth)"
    using followChain_hops[of r 0 maxDepth ts] assms(3,4) by simp
  have w: "CircularReference (name (ts ! i)) \<in> set (tokenWarnings maxDepth ts (ts ! i))"
    using assms(2,3) fc by (simp add: tokenWarnings_def)
  have u: "resolvedToken maxDepth ts (ts ! i) = ts ! i"
    using assms(2,3) fc by (simp add: resolvedToken_def)
  have "ts ! i \<in> set ts" using assms(1) by simp
  then have "CircularReference (name (ts ! i)) \<in> set (snd (resolveReferences ts))"
    using w unfolding resolveReferences_char by auto
  then show ?thesis using u assms(1) unfolding resolveReferences_char by simp
qed

theorem resolveReferences_depth_exceeded_witness:
  "CircularReference ''x'' \<in> set (snd (resolveReferences cycleTokens))
   \<and> fst (resolveReferences cycleTokens) ! 0 = cycleTokens ! 0
   \<and> val (fst (resolveReferences cycleTokens) ! 2) = ''#222222''"
proof -
  have h1: "0 < length cycleTokens" by code_simp
  have h2: "references (cycleTokens ! 0) = Some ''y''" by code_simp
  have h3: "''y'' \<noteq> []" by simp
  have h4: "hops cycleTokens maxDepth ''y'' \<noteq> None" by code_simp
  have n: "name (cycleTokens ! 0) = ''x''" by code_simp
  have v: "val (resolvedToken maxDepth cycleTokens (cycleTokens ! 2)) = ''#222222''"
    by code_simp
  have l: "(2::nat) < length cycleTokens" by code_simp
  from resolveReferences_depth_exceeded[OF h1 h2 h3 h4] l v
  show ?thesis unfolding n by auto
qed

section \<open>Properties of the classifiers\<close>

lemma classifyW3C_char:
  "classifyW3C tokens rest =
     (filter (\<lambda>(n, t). \<not> truthy (w3cReferences t) \<or> isDimensionReferencingDimension tokens t) rest,
      filter (\<lambda>(n, t). truthy (w3cReferences t) \<and> \<not> isDimensionReferencingDimension tokens t) rest)"
  by (induction rest) (auto split: prod.splits)

lemma classifyTokens_char:
  "classifyTokens tokens =
     (filter (\<lambda>t. \<not> truthy (references t) \<and> (isPrimitivePattern (name t) \<or> \<not> isSemanticPattern (name t))) tokens,
      filter (\<lambda>t. truthy (references t) \<or> (\<not> isPrimitivePattern (name t) \<and> isSemanticPattern (name t))) tokens)"
  by (induction tokens) (auto split: prod.splits)

text \<open>
  C6 as stated fails for the universal parser's classifier: it has no exception for
  dimensions. The named gap \<open>gap-m\<close>, a dimension whose reference target \<open>scale-200\<close> is a
  dimension, is put among the semantic tokens.
\<close>

theorem classifyTokens_dimension_counterexample:
  "type (gapTokens ! 1) = ''dimension''
   \<and> references (gapTokens ! 1) = Some ''scale-200''
   \<and> name (gapTokens ! 0) = ''scale-200''
   \<and> type (gapTokens ! 0) = ''dimension''
   \<and> classifyTokens gapTokens = ([gapTokens ! 0], [gapTokens ! 1])"
  by code_simp

text \<open>
  C6 (amended). In the legacy W3C classifier a token carrying a resolved reference is
  semantic, with exactly one exception: if the token and its reference target are both of
  type \<open>dimension\<close> it is primitive. In the universal parser's classifier every token
  carrying a reference is semantic, whatever its type and whatever the name patterns say.
\<close>

theorem classify_reference_rule:
  "(\<forall>(n, t) \<in> set tokens. truthy (w3cReferences t) \<longrightarrow>
      ((n, t) \<in> set (fst (classifyTokensW3C tokens))
         \<longleftrightarrow> (w3cType t = ''dimension'' \<and>
              (\<exists>r t'. w3cReferences t = Some r \<and> map_of tokens r = Some t'
                       \<and> w3cType t' = ''dimension'')))
      \<and> ((n, t) \<in> set (snd (classifyTokensW3C tokens))
         \<longleftrightarrow> \<not> (w3cType t = ''dimension'' \<and>
              (\<exists>r t'. w3cReferences t = Some r \<and> map_of tokens r = Some t'
                       \<and> w3cType t' = ''dimension''))))
   \<and> (\<forall>t \<in> set utokens. truthy (references t) \<longrightarrow>
         t \<in> set (snd (classifyTokens utokens)) \<and> t \<notin> set (fst (classifyTokens utokens)))"
proof -
  have d: "\<And>t. isDimensionReferencingDimension tokens t =
      (w3cType t = ''dimension'' \<and>
              (\<exists>r t'. w3cReferences t = Some r \<and> map_of tokens r = Some t'
                       \<and> w3cType t' = ''dimension''))"
    by (auto simp: isDimensionReferencingDimension_def split: option.splits)
  show ?thesis
    unfolding classifyTokensW3C_def classifyW3C_char classifyTokens_char d[symmetric]
    by auto
qed

theorem classify_reference_rule_witness:
  "gapTokensW3C ! 1 \<in> set (fst (classifyTokensW3C gapTokensW3C))
   \<and> gapTokens ! 1 \<in> set (snd (classifyTokens gapTokens))"
proof -
  let ?g = "gapTokensW3C ! 1"
  have a: "(fst ?g, snd ?g) \<in> set gapTokensW3C" by code_simp
  have b: "truthy (w3cReferences (snd ?g))" by code_simp
  have c: "w3cType (snd ?g) = ''dimension''" by code_simp
  have d: "w3cReferences (snd ?g) = Some ''scale.200''" by code_simp
  have e: "map_of gapTokensW3C ''scale.200'' = Some (snd (gapTokensW3C ! 0))" by code_simp
  have f: "w3cType (snd (gapTokensW3C ! 0)) = ''dimension''" by code_simp
  have g: "gapTokens ! 1 \<in> set gapTokens" by code_simp
  have h: "truthy (references (gapTokens ! 1))" by code_simp
  have "(fst ?g, snd ?g) \<in> set (fst (classifyTokensW3C gapTokensW3C))"
    using classify_reference_rule[of gapTokensW3C gapTokens] a b c d e f by blast
  moreover have "gapTokens ! 1 \<in> set (snd (classifyTokens gapTokens))"
    using classify_reference_rule[of gapTokensW3C gapTokens] g h by blast
  ultimately show ?thesis by simp
qed

section \<open>Properties of the stylesheet emitters\<close>




section \<open>Properties of the format detector\<close>

lemma detect_w3c_iff:
  "(format (detectTokenFormat entries filename) = W3C) = hasW3CFormat (JObj entries)"
  by (simp add: detectTokenFormat_def)

lemma detect_other_format_not_w3c:
  "format (detectTokenFormat entries filename) \<in> {TokensStudio, StyleDictionary, Simple}
   \<Longrightarrow> \<not> hasW3CFormat (JObj entries)"
  by (auto simp: detectTokenFormat_def split: if_splits)

text \<open>
  C9. The detector tests the W3C shape first, so a document is reported as another format
  only if \<open>hasW3CFormat\<close> fails (the two lemmas above). But \<open>hasW3CFormat\<close> is not the test
  the claim describes: its third disjunct holds for every document with a nested object.
  The Tokens Studio document below has no key starting with \<open>$type\<close> or \<open>$value\<close> and no
  reference, it has the Tokens Studio markers, and it is detected as W3C; so is a plain
  nested document.
\<close>

theorem detectTokenFormat_nested_document_is_w3c:
  "format (detectTokenFormat tokensStudioDoc ''tokens.json'') = W3C
   \<and> \<not> spec_hasW3CShape (JObj tokensStudioDoc)
   \<and> hasTokensStudioFormat (JObj tokensStudioDoc)
   \<and> format (detectTokenFormat nestedDoc ''spacing.json'') = W3C
   \<and> \<not> spec_hasW3CShape (JObj nestedDoc)"
  by code_simp

section \<open>Properties of the palette naming\<close>

lemma findAvailable_mem: "names \<noteq> [] \<Longrightarrow> findAvailable used names \<in> set names"
proof -
  assume ne: "names \<noteq> []"
  show ?thesis
  proof (cases "filter (\<lambda>n. n \<notin> set used) names")
    case Nil
    then show ?thesis using ne by (cases names) (auto simp: findAvailable_def)
  next
    case (Cons n ns)
    have "set (filter (\<lambda>n. n \<notin> set used) names) \<subseteq> set names" by auto
    then have "n \<in> set names" unfolding Cons by simp
    then show ?thesis using Cons by (simp add: findAvailable_def)
  qed
qed

lemma findAvailable_family:
  "names \<noteq> [] \<Longrightarrow> set names \<subseteq> set familyNames \<Longrightarrow> findAvailable used names \<in> set familyNames"
  using findAvailable_mem by blast

lemma bucket_names_family:
    "findAvailable used [''rose'', ''pink'', ''blush''] \<in> set familyNames"
    "findAvailable used [''coral'', ''salmon'', ''rose''] \<in> set familyNames"
    "findAvailable used [''crimson'', ''ruby'', ''cherry''] \<in> set familyNames"
    "findAvailable used [''ruby'', ''crimson'', ''garnet''] \<in> set familyNames"
    "findAvailable used [''peach'', ''apricot'', ''cream''] \<in> set familyNames"
    "findAvailable used [''tangerine'', ''persimmon'', ''tiger''] \<in> set familyNames"
    "findAvailable used [''amber'', ''bronze'', ''copper''] \<in> set familyNames"
    "findAvailable used [''lemon'', ''butter'', ''vanilla''] \<in> set familyNames"
    "findAvailable used [''gold'', ''honey'', ''mustard''] \<in> set familyNames"
    "findAvailable used [''olive'', ''khaki'', ''sand''] \<in> set familyNames"
    "findAvailable used [''mint'', ''sage'', ''seafoam''] \<in> set familyNames"
    "findAvailable used [''lime'', ''chartreuse'', ''spring''] \<in> set familyNames"
    "findAvailable used [''sage'', ''moss'', ''olive''] \<in> set familyNames"
    "findAvailable used [''emerald'', ''jade'', ''forest''] \<in> set familyNames"
    "findAvailable used [''forest'', ''hunter'', ''pine''] \<in> set familyNames"
    "findAvailable used [''aqua'', ''ice'', ''frost''] \<in> set familyNames"
    "findAvailable used [''teal'', ''turquoise'', ''cyan''] \<in> set familyNames"
    "findAvailable used [''ocean'', ''deep'', ''marine''] \<in> set familyNames"
    "findAvailable used [''sky'', ''powder'', ''baby''] \<in> set familyNames"
    "findAvailable used [''slate'', ''steel'', ''pewter''] \<in> set familyNames"
    "findAvailable used [''azure'', ''cerulean'', ''periwinkle''] \<in> set familyNames"
    "findAvailable used [''royal'', ''sapphire'', ''cobalt''] \<in> set familyNames"
    "findAvailable used [''navy'', ''midnight'', ''indigo''] \<in> set familyNames"
    "findAvailable used [''lavender'', ''lilac'', ''mauve''] \<in> set familyNames"
    "findAvailable used [''plum'', ''eggplant'', ''wine''] \<in> set familyNames"
    "findAvailable used [''violet'', ''amethyst'', ''orchid''] \<in> set familyNames"
    "findAvailable used [''purple'', ''grape'', ''mulberry''] \<in> set familyNames"
    "findAvailable used [''pink'', ''rose'', ''blush''] \<in> set familyNames"
    "findAvailable used [''magenta'', ''fuchsia'', ''hot''] \<in> set familyNames"
    "findAvailable used [''berry'', ''wine'', ''maroon''] \<in> set familyNames"
  by (rule findAvailable_family, simp, simp add: familyNames_def)+

lemma pureColorName_family:
  "pureColorName (Some h) s l used \<in> set familyNames"
  unfolding pureColorName_def
  by (simp add: bucket_names_family del: set_simps)


lemma unknown_not_family: "''unknown'' \<notin> set familyNames"
  by (simp add: familyNames_def)

lemma hue_chain_defined:
  "mx = r \<or> mx = g \<or> mx = b \<Longrightarrow>
   (if mx = r then Some x else if mx = g then Some y else if mx = b then Some z else None)
     \<noteq> None"
  by auto

lemma rgbToHsl_hue_defined: "fst (rgbToHsl r0 g0 b0) \<noteq> None"
proof -
  define r where "r = (of_nat r0 :: rat) / 255"
  define g where "g = (of_nat g0 :: rat) / 255"
  define b where "b = (of_nat b0 :: rat) / 255"
  define mx where "mx = max r (max g b)"
  define mn where "mn = min r (min g b)"
  define hc where "hc =
     (if mx = r then Some (((g - b) / (mx - mn) + (if g < b then 6 else 0)) / 6)
      else if mx = g then Some (((b - r) / (mx - mn) + 2) / 6)
      else if mx = b then Some (((r - g) / (mx - mn) + 4) / 6)
      else None)"
  have m: "mx = r \<or> mx = g \<or> mx = b" unfolding mx_def by (simp add: max_def)
  have hc: "hc \<noteq> None" unfolding hc_def using m by (rule hue_chain_defined)
  have "fst (rgbToHsl r0 g0 b0) = (if mx = mn then Some 0 else map_option (\<lambda>x. x * 360) hc)"
    unfolding rgbToHsl_def Let_def hc_def mx_def mn_def r_def g_def b_def
    by (simp only: fst_conv if_distrib[of fst])
  then show ?thesis using hc by (cases hc) auto
qed

lemma hue_covered:
  fixes h :: rat
  shows "h < 15 \<or> h \<ge> 345 \<or> (h \<ge> 15 \<and> h < 45) \<or> (h \<ge> 45 \<and> h < 70)
     \<or> (h \<ge> 70 \<and> h < 150) \<or> (h \<ge> 150 \<and> h < 200) \<or> (h \<ge> 200 \<and> h < 260)
     \<or> (h \<ge> 260 \<and> h < 300) \<or> (h \<ge> 300 \<and> h < 345)"
  by linarith

lemma getPureColorName_unparsed:
  "hexValues = [] \<or> hexToRgb (hexValues ! (length hexValues div 2)) = None
   \<Longrightarrow> getPureColorName hexValues existingPrimitives = ''unknown''"
  by (auto simp: getPureColorName_def)

text \<open>
  C10. When the middle hex string of the group parses as a six-digit RGB color, the
  palette-naming function returns one of the family names of its hue buckets and never
  the fallback \<open>unknown\<close>: the hue is always a number, and the hue tests leave no gap
  (\<open>pureColorName_family\<close> holds for every hue, saturation and lightness, so also for the
  rounded values the source computes). The fallback is what is returned when the string
  does not parse (\<open>getPureColorName_unparsed\<close>).
\<close>

theorem getPureColorName_covers_parsed_colors:
  assumes "hexValues \<noteq> []"
      and "hexToRgb (hexValues ! (length hexValues div 2)) = Some c"
  shows "getPureColorName hexValues existingPrimitives \<in> set familyNames
       \<and> getPureColorName hexValues existingPrimitives \<noteq> ''unknown''"
proof -
  let ?used = "rev (remdups (rev (map (\<lambda>(nm, v). (case split CHR ''-'' nm of
                                                   p # _ \<Rightarrow> p | [] \<Rightarrow> []))
                                    existingPrimitives)))"
  obtain hue s l where hsl: "rgbToHsl (rgbR c) (rgbG c) (rgbB c) = (hue, s, l)"
    by (cases "rgbToHsl (rgbR c) (rgbG c) (rgbB c)") auto
  obtain h where h: "hue = Some h"
    using rgbToHsl_hue_defined[of "rgbR c" "rgbG c" "rgbB c"] hsl by auto
  have "getPureColorName hexValues existingPrimitives = pureColorName (Some h) s l ?used"
    using assms hsl h by (simp add: getPureColorName_def Let_def)
  then have "getPureColorName hexValues existingPrimitives \<in> set familyNames"
    using pureColorName_family by simp
  then show ?thesis using unknown_not_family by auto
qed

theorem getPureColorName_covers_parsed_colors_witness:
  "getPureColorName [''#fba466''] [] = ''peach'' \<and> ''peach'' \<in> set familyNames
   \<and> getPureColorName [''#fba466''] [] \<noteq> ''unknown''"
proof -
  have n: "[''#fba466''] \<noteq> []" by simp
  have p: "hexToRgb ([''#fba466''] ! (length [''#fba466''] div 2))
             = Some \<lparr> rgbR = 251, rgbG = 164, rgbB = 102 \<rparr>"
    by code_simp
  have v: "getPureColorName [''#fba466''] [] = ''peach''" by code_simp
  from getPureColorName_covers_parsed_colors[OF n p, of "[]"] v
  show ?thesis by simp
qed

section \<open>Properties of the color family synthesizer\<close>

lemma distLess_Some: "distLess (Some x) e = (case e of None \<Rightarrow> True | Some y \<Rightarrow> x < y)"
  by (simp add: distLess_def)

lemma distLess_None: "distLess None e = False"
  by (simp add: distLess_def)































end
